theory Spec2Isabelle
  imports Main
begin

section \<open>Values exchanged with the outside world\<close>

text \<open>
  The decision returned by the language model is whatever \<open>json.loads\<close> produces, so it
  is modelled as a JSON value. Python's \<open>None\<close> is \<open>JNull\<close>. JSON numbers are kept as
  integers; no function of the program computes with them.
\<close>

datatype json =
    JNull
  | JBool bool
  | JInt int
  | JStr string
  | JArr "json list"
  | JObj "(string \<times> json) list"

text \<open>
  Every way in which a handler can raise. The first four are the failures of the request
  to the language model (\<open>client.post\<close>, \<open>raise_for_status\<close> and the indexing of the
  reply body), \<open>TypeError\<close> is raised when a voice response cannot be written as XML, and
  the last is a failure of the carrier's client.
\<close>

datatype error =
    TransportError
  | TimeoutError
  | HTTPStatusError
  | ReplyShapeError
  | AttributeError
  | KeyError
  | TypeError
  | TwilioRestException

record TriggerEvent =
  user_id :: int
  user_name :: string
  phone :: string
  event_type :: string
  event_payload :: json

subsection \<open>Strings\<close>

text \<open>
  A character stands for a code point below 256. \<open>str.lower\<close> moves the upper-case
  letters of that range (A to Z, and the accented capitals except the multiplication sign)
  32 places up and leaves every other character alone.
\<close>

definition lower_char :: "char \<Rightarrow> char" where
  "lower_char c =
     (let n = (of_char c :: int)
      in if (65 \<le> n \<and> n \<le> 90) \<or> (192 \<le> n \<and> n \<le> 222 \<and> n \<noteq> 215)
         then char_of (n + 32) else c)"

definition lower :: "string \<Rightarrow> string" where
  "lower s = map lower_char s"

text \<open>\<open>starts_with p s\<close>: \<open>s\<close> begins with \<open>p\<close>.\<close>

fun starts_with :: "string \<Rightarrow> string \<Rightarrow> bool" where
  "starts_with [] s = True"
| "starts_with (p # ps) [] = False"
| "starts_with (p # ps) (c # cs) = (p = c \<and> starts_with ps cs)"

text \<open>Python's \<open>p in s\<close> on strings: \<open>p\<close> occurs in \<open>s\<close> as a contiguous piece.\<close>

fun contains :: "string \<Rightarrow> string \<Rightarrow> bool" where
  "contains p [] = (p = [])"
| "contains p (c # cs) = (starts_with p (c # cs) \<or> contains p cs)"

text \<open>\<open>str(x)\<close> inside an f-string, for a value that is a string or \<open>None\<close>.\<close>

fun format_opt :: "string option \<Rightarrow> string" where
  "format_opt None = ''None''"
| "format_opt (Some s) = s"

subsection \<open>Dictionary access on a decision\<close>

text \<open>
  \<open>d.get(k, default)\<close>: only a dictionary has \<open>get\<close>; on any other value Python raises
  \<open>AttributeError\<close>.
\<close>

fun py_get :: "json \<Rightarrow> string \<Rightarrow> json \<Rightarrow> error + json" where
  "py_get (JObj kvs) k d = Inr (case map_of kvs k of None \<Rightarrow> d | Some v \<Rightarrow> v)"
| "py_get _ k d = Inl AttributeError"

text \<open>\<open>v.lower()\<close>: only a string has \<open>lower\<close>.\<close>

fun py_lower :: "json \<Rightarrow> error + string" where
  "py_lower (JStr s) = Inr (lower s)"
| "py_lower _ = Inl AttributeError"

section \<open>The in-memory store and the carrier\<close>

text \<open>
  A value of \<open>CALL_STATE\<close> is a dictionary with a fixed set of possible keys; a field is
  \<open>None\<close> when the key is absent. The empty dictionary is \<open>empty_meta\<close>.
\<close>

record gather_response =
  resp_digits :: "string option"
  resp_speech :: "string option"
  resp_raw :: "string \<rightharpoonup> string"

record call_meta =
  meta_user_id :: "int option"
  meta_phone :: "string option"
  meta_message :: "json option"
  meta_decision :: "json option"
  meta_attempts :: "int option"
  meta_twilio_sid :: "string option"
  meta_response :: "gather_response option"

definition empty_meta :: call_meta where
  "empty_meta =
     \<lparr>meta_user_id = None, meta_phone = None, meta_message = None, meta_decision = None,
      meta_attempts = None, meta_twilio_sid = None, meta_response = None\<rparr>"

text \<open>
  Requests sent to the carrier: \<open>twilio.calls.create(to, from_, url)\<close> and
  \<open>twilio.messages.create(body, to, from_)\<close>.
\<close>

datatype carrier_request =
    CallRequest string "string option" string
  | MessageRequest json string "string option"

text \<open>
  The state of the process: the global dictionary \<open>CALL_STATE\<close>, whose keys are call ids
  (a key can be \<open>None\<close>, since both callbacks take the id from an optional field), and
  the requests sent to the carrier so far.
\<close>

record world =
  CALL_STATE :: "string option \<rightharpoonup> call_meta"
  outbox :: "carrier_request list"

text \<open>
  What a handler gets from outside the process during one request: the reply of the
  language model (the \<open>content\<close> field of the first choice, or the failure of the
  request), \<open>json.loads\<close>, the identifier drawn by \<open>uuid.uuid4\<close>, the answers of the
  carrier, and the two configuration values read from the process environment.
\<close>

record env =
  oracle_post :: "TriggerEvent \<Rightarrow> error + json"
  json_loads :: "string \<Rightarrow> json option"
  uuid4 :: string
  calls_create :: "carrier_request \<Rightarrow> error + string"
  messages_create :: "carrier_request \<Rightarrow> error + unit"
  TWILIO_FROM :: "string option"
  BASE_URL :: string

subsection \<open>Voice responses\<close>

datatype verb =
    Say json
  | Gather string nat nat string string "verb list"

record http_response =
  content :: "verb list"
  media_type :: string

definition xml_response :: "verb list \<Rightarrow> http_response" where
  "xml_response vr = \<lparr>content = vr, media_type = ''application/xml''\<rparr>"

section \<open>The decision function\<close>

definition fallback_decision :: json where
  "fallback_decision =
     JObj [(''action'', JStr ''call''),
           (''message'', JStr ''Hello, this is Tourist Safety. We detected unusual activity. Are you safe? Press 1 for Yes, 2 for Help.''),
           (''escalation'', JBool True),
           (''max_attempts'', JInt 2)]"

text \<open>
  \<open>json.loads(text)\<close> inside the \<open>try\<close>: a text that is not a string makes it raise
  \<open>TypeError\<close>, a string that is not JSON makes it raise a decode error; both are caught.
\<close>

fun try_json_loads :: "env \<Rightarrow> json \<Rightarrow> json option" where
  "try_json_loads e (JStr t) = json_loads e t"
| "try_json_loads e _ = None"

definition llm_decide_action :: "env \<Rightarrow> TriggerEvent \<Rightarrow> error + json" where
  "llm_decide_action e event =
     (case oracle_post e event of
        Inl err \<Rightarrow> Inl err
      | Inr text \<Rightarrow>
          (case try_json_loads e text of
             None \<Rightarrow> Inr fallback_decision
           | Some decision \<Rightarrow> Inr decision))"

section \<open>The voice-prompt callback\<close>

definition default_message :: string where
  "default_message = ''We noticed unusual activity. Are you safe? Press 1 for Yes, 2 for Help.''"

text \<open>
  Python's truth value of a message taken from a decision.
\<close>

fun truthy :: "json \<Rightarrow> bool" where
  "truthy JNull = False"
| "truthy (JBool b) = b"
| "truthy (JInt n) = (n \<noteq> 0)"
| "truthy (JStr s) = (s \<noteq> [])"
| "truthy (JArr xs) = (xs \<noteq> [])"
| "truthy (JObj kvs) = (kvs \<noteq> [])"

text \<open>
  \<open>str(vr)\<close> writes the response as XML. \<open>Say\<close> keeps a message only when it is truthy,
  and the XML writer accepts only a string as the text of an element: a message that is
  truthy and not a string makes \<open>str(vr)\<close> raise \<open>TypeError\<close>, any other message is
  written (a falsy one as a \<open>Say\<close> without text).
\<close>

fun renders :: "json \<Rightarrow> bool" where
  "renders (JStr s) = True"
| "renders v = (\<not> truthy v)"

definition twilio_voice ::
  "env \<Rightarrow> world \<Rightarrow> (string \<rightharpoonup> string) \<Rightarrow> world \<times> (error + http_response)" where
  "twilio_voice e w form =
     (let call_sid = form ''CallSid'';
          meta = (case CALL_STATE w call_sid of None \<Rightarrow> empty_meta | Some m \<Rightarrow> m);
          message = (case meta_message meta of None \<Rightarrow> JStr default_message | Some v \<Rightarrow> v);
          gather = Gather ''dtmf speech'' 1 6
                     (BASE_URL e @ ''/twilio/gather?call_sid='' @ format_opt call_sid)
                     ''POST'' [Say message]
      in if renders message
         then (w, Inr (xml_response
                 [gather, Say (JStr ''We did not receive input. We will try again.'')]))
         else (w, Inl TypeError))"

section \<open>The response-collection callback\<close>

text \<open>
  The form and the query string of a request are maps from field names to strings;
  \<open>get\<close> on either returns \<open>None\<close> for a missing field, and \<open>dict(form)\<close> is the form itself.
\<close>

definition safe_message :: string where
  "safe_message = ''Glad you are safe. We have noted this. Goodbye.''"

definition alert_message :: string where
  "alert_message = ''We have alerted your emergency contact and authorities. Help is on the way.''"

text \<open>The condition of the \<open>if\<close>; an empty transcript is falsy.\<close>

definition said_safe :: "string option \<Rightarrow> string option \<Rightarrow> bool" where
  "said_safe digits speech_result =
     (digits = Some ''1'' \<or>
      (case speech_result of
         None \<Rightarrow> False
       | Some s \<Rightarrow> s \<noteq> [] \<and> contains ''safe'' (lower s)))"

definition twilio_gather ::
  "world \<Rightarrow> (string \<rightharpoonup> string) \<Rightarrow> (string \<rightharpoonup> string) \<Rightarrow> world \<times> http_response" where
  "twilio_gather w form query_params =
     (let digits = form ''Digits'';
          speech_result = form ''SpeechResult'';
          call_sid = query_params ''call_sid'';
          meta = (case CALL_STATE w call_sid of None \<Rightarrow> empty_meta | Some m \<Rightarrow> m);
          w' = w\<lparr>CALL_STATE := (CALL_STATE w)(call_sid \<mapsto>
                 meta\<lparr>meta_response :=
                   Some \<lparr>resp_digits = digits, resp_speech = speech_result, resp_raw = form\<rparr>\<rparr>)\<rparr>
      in if said_safe digits speech_result
         then (w', xml_response [Say (JStr safe_message)])
         else (w', xml_response [Say (JStr alert_message)]))"

section \<open>The trigger endpoint\<close>

datatype trigger_result =
    Calling string
  | Notified
  | Ignored json

text \<open>\<open>decision.get("action", "").lower()\<close>\<close>

definition decision_action :: "json \<Rightarrow> error + string" where
  "decision_action decision =
     (case py_get decision ''action'' (JStr '''') of
        Inl err \<Rightarrow> Inl err
      | Inr a \<Rightarrow> py_lower a)"

text \<open>\<open>decision.get("message")\<close>, evaluated once \<open>decision\<close> is known to be a dictionary.\<close>

definition decision_message :: "json \<Rightarrow> json" where
  "decision_message decision =
     (case py_get decision ''message'' JNull of Inl err \<Rightarrow> JNull | Inr v \<Rightarrow> v)"

definition trigger_event :: "env \<Rightarrow> world \<Rightarrow> TriggerEvent \<Rightarrow> world \<times> (error + trigger_result)" where
  "trigger_event e w event =
     (case llm_decide_action e event of
        Inl err \<Rightarrow> (w, Inl err)
      | Inr decision \<Rightarrow>
          (case decision_action decision of
             Inl err \<Rightarrow> (w, Inl err)
           | Inr action \<Rightarrow>
               if action = ''call'' then
                 (let call_sid = uuid4 e;
                      w1 = w\<lparr>CALL_STATE := (CALL_STATE w)(Some call_sid \<mapsto>
                             \<lparr>meta_user_id = Some (user_id event),
                              meta_phone = Some (phone event),
                              meta_message = Some (decision_message decision),
                              meta_decision = Some decision,
                              meta_attempts = Some 0,
                              meta_twilio_sid = None,
                              meta_response = None\<rparr>)\<rparr>;
                      req = CallRequest (phone event) (TWILIO_FROM e) (BASE_URL e @ ''/twilio/voice'');
                      w2 = w1\<lparr>outbox := outbox w1 @ [req]\<rparr>
                  in case calls_create e req of
                       Inl err \<Rightarrow> (w2, Inl err)
                     | Inr sid \<Rightarrow>
                         (case CALL_STATE w2 (Some call_sid) of
                            None \<Rightarrow> (w2, Inl KeyError)
                          | Some m \<Rightarrow>
                              (w2\<lparr>CALL_STATE :=
                                    ((CALL_STATE w2)(Some call_sid := None))(Some sid \<mapsto>
                                       m\<lparr>meta_twilio_sid := Some sid\<rparr>)\<rparr>,
                               Inr (Calling sid))))
               else if action = ''notify'' then
                 (let req = MessageRequest (decision_message decision) (phone event) (TWILIO_FROM e);
                      w1 = w\<lparr>outbox := outbox w @ [req]\<rparr>
                  in case messages_create e req of
                       Inl err \<Rightarrow> (w1, Inl err)
                     | Inr _ \<Rightarrow> (w1, Inr Notified))
               else (w, Inr (Ignored decision))))"

section \<open>The handlers as steps of the process\<close>

text \<open>
  The worlds the process can be in: it starts with an empty store and nothing sent, and
  every request handled by one of the three endpoints leads to the next world, also when
  the handler raises.
\<close>

inductive reachable :: "world \<Rightarrow> bool" where
  start: "reachable \<lparr>CALL_STATE = Map.empty, outbox = []\<rparr>"
| trigger: "reachable w \<Longrightarrow> reachable (fst (trigger_event e w event))"
| voice: "reachable w \<Longrightarrow> reachable (fst (twilio_voice e w form))"
| gather: "reachable w \<Longrightarrow> reachable (fst (twilio_gather w form q))"

section \<open>Concrete requests\<close>

definition panic_event :: TriggerEvent where
  "panic_event =
     \<lparr>user_id = 7, user_name = ''Asha'', phone = ''+15550100'',
      event_type = ''panic_button'', event_payload = JObj []\<rparr>"

definition empty_world :: world where
  "empty_world = \<lparr>CALL_STATE = Map.empty, outbox = []\<rparr>"

text \<open>The language model answers with a sentence that is not JSON; the carrier accepts the call.\<close>

definition env_calls :: env where
  "env_calls =
     \<lparr>oracle_post = (\<lambda>_. Inr (JStr ''Sure, I would call them.'')),
      json_loads = (\<lambda>_. None),
      uuid4 = ''0b9f6c1e-7a7e-4c58-9d5d-2f1e6a3c4b11'',
      calls_create = (\<lambda>_. Inr ''CA1''),
      messages_create = (\<lambda>_. Inr ()),
      TWILIO_FROM = Some ''+15550199'',
      BASE_URL = ''https://example.test''\<rparr>"

text \<open>The request to the language model runs into its 30 second timeout.\<close>

definition env_timeout :: env where
  "env_timeout = env_calls\<lparr>oracle_post := (\<lambda>_. Inl TimeoutError)\<rparr>"

text \<open>The record of a call placed for \<open>panic_event\<close> on the fallback decision.\<close>

definition fallback_session :: call_meta where
  "fallback_session =
     \<lparr>meta_user_id = Some 7, meta_phone = Some ''+15550100'',
      meta_message = Some (JStr ''Hello, this is Tourist Safety. We detected unusual activity. Are you safe? Press 1 for Yes, 2 for Help.''),
      meta_decision = Some fallback_decision,
      meta_attempts = Some 0, meta_twilio_sid = Some ''CA1'', meta_response = None\<rparr>"

definition one_call_world :: world where
  "one_call_world = \<lparr>CALL_STATE = [Some ''CA1'' \<mapsto> fallback_session], outbox = []\<rparr>"

definition voice_form :: "string \<rightharpoonup> string" where
  "voice_form = [''CallSid'' \<mapsto> ''CA1'']"

definition voice_form_unknown :: "string \<rightharpoonup> string" where
  "voice_form_unknown = [''CallSid'' \<mapsto> ''CA404'']"

definition no_input_form :: "string \<rightharpoonup> string" where
  "no_input_form = Map.empty"

definition press2_form :: "string \<rightharpoonup> string" where
  "press2_form = [''Digits'' \<mapsto> ''2'']"

definition press2_safe_form :: "string \<rightharpoonup> string" where
  "press2_safe_form = [''Digits'' \<mapsto> ''2'', ''SpeechResult'' \<mapsto> ''I am safe'']"

definition press1_help_form :: "string \<rightharpoonup> string" where
  "press1_help_form = [''Digits'' \<mapsto> ''1'', ''SpeechResult'' \<mapsto> ''Help me'']"

definition shouted_safe_form :: "string \<rightharpoonup> string" where
  "shouted_safe_form = [''SpeechResult'' \<mapsto> ''I am SAFE'']"

definition query_CA1 :: "string \<rightharpoonup> string" where
  "query_CA1 = [''call_sid'' \<mapsto> ''CA1'']"

definition query_unknown :: "string \<rightharpoonup> string" where
  "query_unknown = [''call_sid'' \<mapsto> ''CA404'']"

section \<open>Basic facts about the handlers\<close>

lemmas lower_eval = lower_def lower_char_def char_of_def

lemma starts_with_iff: "starts_with p s \<longleftrightarrow> (\<exists>post. s = p @ post)"
  by (induction p s rule: starts_with.induct) auto

text \<open>\<open>contains\<close> is the substring relation.\<close>

lemma contains_iff: "contains p s \<longleftrightarrow> (\<exists>pre post. s = pre @ p @ post)"
proof (induction s)
  case Nil
  then show ?case by auto
next
  case (Cons c cs)
  show ?case
  proof
    assume "contains p (c # cs)"
    then consider "starts_with p (c # cs)" | "contains p cs" by auto
    then show "\<exists>pre post. c # cs = pre @ p @ post"
    proof cases
      case 1
      then obtain post where "c # cs = p @ post" using starts_with_iff by blast
      then have "c # cs = [] @ p @ post" by simp
      then show ?thesis by blast
    next
      case 2
      then obtain pre post where "cs = pre @ p @ post" using Cons.IH by blast
      then have "c # cs = (c # pre) @ p @ post" by simp
      then show ?thesis by blast
    qed
  next
    assume "\<exists>pre post. c # cs = pre @ p @ post"
    then obtain pre post where eq: "c # cs = pre @ p @ post" by blast
    show "contains p (c # cs)"
    proof (cases pre)
      case Nil
      with eq have "starts_with p (c # cs)" using starts_with_iff by auto
      then show ?thesis by simp
    next
      case (Cons a pre')
      with eq have "cs = pre' @ p @ post" by simp
      then have "contains p cs" using Cons.IH by blast
      then show ?thesis by simp
    qed
  qed
qed

lemma twilio_voice_world: "fst (twilio_voice e w form) = w"
  by (simp add: twilio_voice_def Let_def)

text \<open>
  The one failing path of the voice-prompt callback: a stored message that is truthy and
  not a string cannot be written; the store is left as it was.
\<close>

lemma twilio_voice_raises:
  assumes "CALL_STATE w (form ''CallSid'') = Some m" and "meta_message m = Some v"
    and "\<not> renders v"
  shows "twilio_voice e w form = (w, Inl TypeError)"
  using assms by (simp add: twilio_voice_def Let_def)

lemma twilio_gather_outbox: "outbox (fst (twilio_gather w form q)) = outbox w"
  by (simp add: twilio_gather_def Let_def)

lemma twilio_gather_store:
  "CALL_STATE (fst (twilio_gather w form q)) =
     (CALL_STATE w)(q ''call_sid'' \<mapsto>
        (case CALL_STATE w (q ''call_sid'') of None \<Rightarrow> empty_meta | Some m \<Rightarrow> m)
          \<lparr>meta_response := Some \<lparr>resp_digits = form ''Digits'',
               resp_speech = form ''SpeechResult'', resp_raw = form\<rparr>\<rparr>)"
  by (simp add: twilio_gather_def Let_def)

lemma twilio_gather_reply:
  "snd (twilio_gather w form q) =
     xml_response [Say (JStr (if said_safe (form ''Digits'') (form ''SpeechResult'')
                              then safe_message else alert_message))]"
  by (simp add: twilio_gather_def Let_def)

lemma fallback_decision_fields:
  "py_get fallback_decision ''action'' (JStr []) = Inr (JStr ''call'') \<and>
   py_get fallback_decision ''escalation'' JNull = Inr (JBool True) \<and>
   py_get fallback_decision ''max_attempts'' JNull = Inr (JInt 2)"
  by (simp add: fallback_decision_def)

lemma trigger_event_calling:
  assumes "snd (trigger_event e w event) = Inr (Calling sid)"
  shows "\<exists>d. llm_decide_action e event = Inr d \<and> decision_action d = Inr ''call'' \<and>
           fst (trigger_event e w event) =
             w\<lparr>CALL_STATE := ((CALL_STATE w)(Some (uuid4 e) := None))(Some sid \<mapsto>
                   \<lparr>meta_user_id = Some (user_id event), meta_phone = Some (phone event),
                    meta_message = Some (decision_message d), meta_decision = Some d,
                    meta_attempts = Some 0, meta_twilio_sid = Some sid,
                    meta_response = None\<rparr>),
                outbox := outbox w @
                  [CallRequest (phone event) (TWILIO_FROM e) (BASE_URL e @ ''/twilio/voice'')]\<rparr>"
  using assms
  by (auto simp: trigger_event_def Let_def split: sum.splits if_splits)

lemma trigger_event_fallback_call:
  assumes "llm_decide_action e event = Inr fallback_decision"
    and "calls_create e (CallRequest (phone event) (TWILIO_FROM e) (BASE_URL e @ ''/twilio/voice'')) = Inr sid"
  shows "snd (trigger_event e w event) = Inr (Calling sid)"
proof -
  have "decision_action fallback_decision = Inr ''call''"
    by (simp add: decision_action_def fallback_decision_def lower_eval)
  then show ?thesis using assms by (simp add: trigger_event_def Let_def)
qed

lemma trigger_event_attempts:
  assumes "CALL_STATE (fst (trigger_event e w event)) k = Some m"
  shows "meta_attempts m = Some 0 \<or> CALL_STATE w k = Some m"
  using assms
  by (auto simp: trigger_event_def Let_def split: sum.splits if_splits)

lemma twilio_gather_attempts:
  assumes "CALL_STATE (fst (twilio_gather w form q)) k = Some m"
  shows "meta_attempts m = None \<or>
         (\<exists>m0. CALL_STATE w k = Some m0 \<and> meta_attempts m = meta_attempts m0)"
  using assms
  by (auto simp: twilio_gather_store empty_meta_def split: option.splits if_splits)

lemma reachable_attempts:
  "reachable w \<Longrightarrow> CALL_STATE w k = Some m \<Longrightarrow>
     meta_attempts m = None \<or> meta_attempts m = Some 0"
proof (induction arbitrary: k m rule: reachable.induct)
  case start
  then show ?case by simp
next
  case (trigger w e event)
  then show ?case using trigger_event_attempts by blast
next
  case (voice w e form)
  then show ?case by (simp add: twilio_voice_world)
next
  case (gather w form q)
  from twilio_gather_attempts [OF gather.prems]
  show ?case using gather.IH by metis
qed

lemma panic_call_run:
  "trigger_event env_calls empty_world panic_event =
     (\<lparr>CALL_STATE = [Some ''CA1'' \<mapsto> fallback_session],
       outbox = [CallRequest ''+15550100'' (Some ''+15550199'') ''https://example.test/twilio/voice'']\<rparr>,
      Inr (Calling ''CA1''))"
  by (simp add: trigger_event_def llm_decide_action_def env_calls_def decision_action_def
        decision_message_def fallback_decision_def fallback_session_def lower_eval Let_def
        empty_world_def panic_event_def)

lemma prompted_world_reachable:
  "reachable (fst (twilio_voice env_calls (fst (trigger_event env_calls empty_world panic_event)) voice_form))"
proof -
  have "reachable empty_world" unfolding empty_world_def by (rule reachable.start)
  then have "reachable (fst (trigger_event env_calls empty_world panic_event))"
    by (rule reachable.trigger)
  then show ?thesis by (rule reachable.voice)
qed

section \<open>Properties of the decision function and the trigger endpoint\<close>

text \<open>
  C1, as the code has it. The fallback decision (action \<open>call\<close>, the safety-check message,
  escalation true, two attempts) is what \<open>llm_decide_action\<close> returns when the reply of the
  language model is not a string or is a string that \<open>json.loads\<close> rejects, and the trigger
  endpoint then answers \<open>calling\<close> once the carrier has accepted the call. The request to
  the language model itself is outside the \<open>try\<close>: when it fails or times out, the
  failure leaves \<open>llm_decide_action\<close> and the trigger endpoint, and the store is untouched.
\<close>

theorem decide_fallback_only_on_parse_failure:
  "(oracle_post e event = Inl err \<longrightarrow>
      llm_decide_action e event = Inl err \<and> trigger_event e w event = (w, Inl err)) \<and>
   (oracle_post e event = Inr text \<and> try_json_loads e text = None \<longrightarrow>
      llm_decide_action e event = Inr fallback_decision \<and>
      (calls_create e (CallRequest (phone event) (TWILIO_FROM e) (BASE_URL e @ ''/twilio/voice'')) = Inr sid \<longrightarrow>
         snd (trigger_event e w event) = Inr (Calling sid)))"
proof (intro conjI impI)
  assume "oracle_post e event = Inl err"
  then show "llm_decide_action e event = Inl err" by (simp add: llm_decide_action_def)
  then show "trigger_event e w event = (w, Inl err)" by (simp add: trigger_event_def)
next
  assume "oracle_post e event = Inr text \<and> try_json_loads e text = None"
  then show fb: "llm_decide_action e event = Inr fallback_decision"
    by (simp add: llm_decide_action_def)
  assume "calls_create e (CallRequest (phone event) (TWILIO_FROM e) (BASE_URL e @ ''/twilio/voice'')) = Inr sid"
  with fb show "snd (trigger_event e w event) = Inr (Calling sid)"
    by (rule trigger_event_fallback_call)
qed

theorem decide_fallback_only_on_parse_failure_witness:
  "oracle_post env_timeout panic_event = Inl TimeoutError \<and>
   llm_decide_action env_timeout panic_event = Inl TimeoutError \<and>
   trigger_event env_timeout empty_world panic_event = (empty_world, Inl TimeoutError) \<and>
   oracle_post env_calls panic_event = Inr (JStr ''Sure, I would call them.'') \<and>
   try_json_loads env_calls (JStr ''Sure, I would call them.'') = None \<and>
   llm_decide_action env_calls panic_event = Inr fallback_decision \<and>
   calls_create env_calls
     (CallRequest (phone panic_event) (TWILIO_FROM env_calls) (BASE_URL env_calls @ ''/twilio/voice'')) = Inr ''CA1'' \<and>
   snd (trigger_event env_calls empty_world panic_event) = Inr (Calling ''CA1'')"
  using decide_fallback_only_on_parse_failure
          [of env_timeout panic_event TimeoutError empty_world "JStr ''Sure''" "''CA1''"]
        decide_fallback_only_on_parse_failure
          [of env_calls panic_event TimeoutError empty_world "JStr ''Sure, I would call them.''" "''CA1''"]
  by (simp add: env_timeout_def env_calls_def)

text \<open>
  C1 as stated fails when the request to the language model times out: no decision is
  returned, and the trigger endpoint raises instead of answering \<open>calling\<close>.
\<close>

theorem oracle_timeout_counterexample:
  "oracle_post env_timeout panic_event = Inl TimeoutError \<and>
   llm_decide_action env_timeout panic_event \<noteq> Inr fallback_decision \<and>
   snd (trigger_event env_timeout empty_world panic_event) = Inl TimeoutError"
  by (simp add: env_timeout_def env_calls_def llm_decide_action_def trigger_event_def)



section \<open>Properties of the response-collection callback\<close>

text \<open>
  C5, as the code has it. Keypress \<open>1\<close>, or a transcript in which \<open>safe\<close> occurs once
  lower-cased, gets the reply that the caller is safe; with keypress \<open>1\<close> the transcript
  plays no role. The handler stores the captured response in the record of the call id
  (an empty record when there was none) and changes nothing else: no field marks the
  session as resolved, nothing is sent, and the reply to a later request for the same id
  depends on that later request alone.
\<close>

theorem gather_safe_reply:
  assumes "form ''Digits'' = Some ''1'' \<or>
           (\<exists>s. form ''SpeechResult'' = Some s \<and> contains ''safe'' (lower s))"
  shows "snd (twilio_gather w form q) = xml_response [Say (JStr safe_message)] \<and>
         fst (twilio_gather w form q) =
           w\<lparr>CALL_STATE := (CALL_STATE w)(q ''call_sid'' \<mapsto>
                (case CALL_STATE w (q ''call_sid'') of None \<Rightarrow> empty_meta | Some m \<Rightarrow> m)
                  \<lparr>meta_response := Some \<lparr>resp_digits = form ''Digits'',
                       resp_speech = form ''SpeechResult'', resp_raw = form\<rparr>\<rparr>)\<rparr> \<and>
         snd (twilio_gather (fst (twilio_gather w form q)) form' q') =
           xml_response [Say (JStr (if said_safe (form' ''Digits'') (form' ''SpeechResult'')
                                    then safe_message else alert_message))]"
proof -
  have "said_safe (form ''Digits'') (form ''SpeechResult'')"
    using assms by (auto simp: said_safe_def lower_def)
  then have "snd (twilio_gather w form q) = xml_response [Say (JStr safe_message)]"
    by (simp add: twilio_gather_reply)
  moreover have "fst (twilio_gather w form q) =
           w\<lparr>CALL_STATE := (CALL_STATE w)(q ''call_sid'' \<mapsto>
                (case CALL_STATE w (q ''call_sid'') of None \<Rightarrow> empty_meta | Some m \<Rightarrow> m)
                  \<lparr>meta_response := Some \<lparr>resp_digits = form ''Digits'',
                       resp_speech = form ''SpeechResult'', resp_raw = form\<rparr>\<rparr>)\<rparr>"
    by (simp add: twilio_gather_def Let_def)
  moreover have "snd (twilio_gather (fst (twilio_gather w form q)) form' q') =
           xml_response [Say (JStr (if said_safe (form' ''Digits'') (form' ''SpeechResult'')
                                    then safe_message else alert_message))]"
    by (rule twilio_gather_reply)
  ultimately show ?thesis by simp
qed

theorem gather_safe_reply_witness:
  "press1_help_form ''Digits'' = Some ''1'' \<and>
   snd (twilio_gather one_call_world press1_help_form query_CA1) =
     xml_response [Say (JStr safe_message)] \<and>
   CALL_STATE (fst (twilio_gather one_call_world press1_help_form query_CA1)) (Some ''CA1'') =
     Some (fallback_session\<lparr>meta_response := Some \<lparr>resp_digits = Some ''1'',
             resp_speech = Some ''Help me'', resp_raw = press1_help_form\<rparr>\<rparr>) \<and>
   outbox (fst (twilio_gather one_call_world press1_help_form query_CA1)) = [] \<and>
   shouted_safe_form ''SpeechResult'' = Some ''I am SAFE'' \<and>
   contains ''safe'' (lower ''I am SAFE'') \<and>
   snd (twilio_gather one_call_world shouted_safe_form query_CA1) =
     xml_response [Say (JStr safe_message)]"
  using gather_safe_reply [of press1_help_form one_call_world query_CA1 press2_form query_CA1]
        gather_safe_reply [of shouted_safe_form one_call_world query_CA1 press2_form query_CA1]
  by (simp add: press1_help_form_def shouted_safe_form_def lower_eval one_call_world_def
        query_CA1_def)

text \<open>
  C5 as stated fails: keypress \<open>1\<close> does not leave the session resolved as safe. The
  record is the one the trigger endpoint wrote plus the captured response, and the next
  request for the same call, with keypress \<open>2\<close>, gets the reply that help has been
  alerted and replaces the stored response.
\<close>

theorem safe_then_press2_counterexample:
  "press1_help_form ''Digits'' = Some ''1'' \<and>
   snd (twilio_gather one_call_world press1_help_form query_CA1) =
     xml_response [Say (JStr safe_message)] \<and>
   snd (twilio_gather (fst (twilio_gather one_call_world press1_help_form query_CA1))
          press2_form query_CA1) =
     xml_response [Say (JStr alert_message)] \<and>
   CALL_STATE (fst (twilio_gather (fst (twilio_gather one_call_world press1_help_form query_CA1))
                      press2_form query_CA1)) (Some ''CA1'') =
     Some (fallback_session\<lparr>meta_response := Some \<lparr>resp_digits = Some ''2'',
             resp_speech = None, resp_raw = press2_form\<rparr>\<rparr>)"
  by (simp add: twilio_gather_reply twilio_gather_store said_safe_def press1_help_form_def
        press2_form_def one_call_world_def query_CA1_def)

text \<open>
  C9. Handling the same response-collection request a second time leaves the store as
  the first handling left it, gives the same reply, and sends nothing to the carrier;
  this holds for every request, so also for one that was answered as safe.
\<close>

theorem twilio_gather_idempotent:
  "fst (twilio_gather (fst (twilio_gather w form q)) form q) = fst (twilio_gather w form q) \<and>
   snd (twilio_gather (fst (twilio_gather w form q)) form q) = snd (twilio_gather w form q) \<and>
   outbox (fst (twilio_gather (fst (twilio_gather w form q)) form q)) = outbox w"
  by (simp add: twilio_gather_def Let_def)

text \<open>
  C2, as the code has it. A request whose keypress is not \<open>1\<close> and whose transcript is
  absent or lacks \<open>safe\<close> gets the reply that help has been alerted, whatever the number
  of attempts made and allowed; the handler stores the captured response in the record
  and leaves the rest of the record, the attempts among it, as it was. The code has no
  retrying outcome.
\<close>

theorem gather_other_input_alerts:
  assumes "form ''Digits'' \<noteq> Some ''1''"
    and "\<forall>s. form ''SpeechResult'' = Some s \<longrightarrow> \<not> contains ''safe'' (lower s)"
  shows "snd (twilio_gather w form q) = xml_response [Say (JStr alert_message)] \<and>
         (\<forall>m. CALL_STATE w (q ''call_sid'') = Some m \<longrightarrow>
            CALL_STATE (fst (twilio_gather w form q)) (q ''call_sid'') =
              Some (m\<lparr>meta_response := Some \<lparr>resp_digits = form ''Digits'',
                      resp_speech = form ''SpeechResult'', resp_raw = form\<rparr>\<rparr>))"
proof -
  have "\<not> said_safe (form ''Digits'') (form ''SpeechResult'')"
    using assms by (auto simp: said_safe_def split: option.splits)
  then show ?thesis by (simp add: twilio_gather_reply twilio_gather_store)
qed

theorem gather_other_input_alerts_witness:
  "no_input_form ''Digits'' \<noteq> Some ''1'' \<and>
   no_input_form ''SpeechResult'' = None \<and>
   snd (twilio_gather one_call_world no_input_form query_CA1) =
     xml_response [Say (JStr alert_message)] \<and>
   CALL_STATE (fst (twilio_gather one_call_world no_input_form query_CA1)) (Some ''CA1'') =
     Some (fallback_session\<lparr>meta_response := Some \<lparr>resp_digits = None,
             resp_speech = None, resp_raw = no_input_form\<rparr>\<rparr>)"
  using gather_other_input_alerts [of no_input_form one_call_world query_CA1]
  by (simp add: no_input_form_def one_call_world_def query_CA1_def)

text \<open>
  C2 as stated fails on the first attempt of a call that allows two: a request without
  keypress and without transcript gets the reply that help has been alerted, the very
  reply given to keypress \<open>2\<close>, and not a retry.
\<close>

theorem no_input_first_attempt_counterexample:
  "CALL_STATE one_call_world (query_CA1 ''call_sid'') = Some fallback_session \<and>
   meta_attempts fallback_session = Some 0 \<and>
   meta_decision fallback_session = Some fallback_decision \<and>
   py_get fallback_decision ''max_attempts'' JNull = Inr (JInt 2) \<and>
   no_input_form ''Digits'' = None \<and> no_input_form ''SpeechResult'' = None \<and>
   snd (twilio_gather one_call_world no_input_form query_CA1) =
     xml_response [Say (JStr alert_message)] \<and>
   snd (twilio_gather one_call_world no_input_form query_CA1) =
     snd (twilio_gather one_call_world press2_form query_CA1)"
  by (simp add: one_call_world_def query_CA1_def fallback_session_def fallback_decision_def
        no_input_form_def press2_form_def twilio_gather_reply said_safe_def)

text \<open>
  C3, at the requests that escalate. For keypress \<open>2\<close>, and for a request without input,
  the handler tells the caller that the emergency contact and the authorities have been
  alerted, and sends nothing to the carrier: the list of requests sent stays empty.
\<close>

theorem gather_help_sends_nothing:
  "snd (twilio_gather one_call_world press2_form query_CA1) =
     xml_response [Say (JStr alert_message)] \<and>
   outbox (fst (twilio_gather one_call_world press2_form query_CA1)) = [] \<and>
   snd (twilio_gather one_call_world no_input_form query_CA1) =
     xml_response [Say (JStr alert_message)] \<and>
   outbox (fst (twilio_gather one_call_world no_input_form query_CA1)) = []"
  by (simp add: twilio_gather_reply twilio_gather_outbox said_safe_def press2_form_def
        no_input_form_def one_call_world_def)

text \<open>
  With both a keypress and a transcript in the request, the reply is the safe one
  exactly when the keypress is \<open>1\<close> or \<open>safe\<close> occurs in the lower-cased transcript.
\<close>

lemma gather_reply_both_present:
  assumes "form ''Digits'' = Some d" and "form ''SpeechResult'' = Some s"
  shows "snd (twilio_gather w form q) =
           xml_response [Say (JStr (if d = ''1'' \<or> contains ''safe'' (lower s)
                                    then safe_message else alert_message))]"
  using assms by (auto simp: twilio_gather_reply said_safe_def lower_def)

text \<open>
  C4, at keypress \<open>2\<close> together with the transcript \<open>I am safe\<close>. The prompt offers
  \<open>2 for Help\<close> and the comment on the second branch reads \<open>if pressed 2 or said "help"\<close>,
  yet the handler gives the reply for a safe caller, not the one that alerts help: the
  transcript is tested before the keypress \<open>2\<close> is ever looked at.
\<close>

theorem keypress2_with_safe_speech_reply:
  "press2_safe_form ''Digits'' = Some ''2'' \<and>
   press2_safe_form ''SpeechResult'' = Some ''I am safe'' \<and>
   snd (twilio_gather one_call_world press2_safe_form query_CA1) =
     xml_response [Say (JStr safe_message)] \<and>
   snd (twilio_gather one_call_world press2_safe_form query_CA1) \<noteq>
     xml_response [Say (JStr alert_message)]"
  by (simp add: press2_safe_form_def twilio_gather_reply said_safe_def lower_eval
        xml_response_def safe_message_def alert_message_def)

section \<open>Properties of the voice-prompt callback\<close>

text \<open>
  C10. The voice-prompt callback returns the world it was given, also when writing the
  response raises; when the store has no record for the call id, the prompt speaks the
  default message.
\<close>

theorem twilio_voice_frame:
  "fst (twilio_voice e w form) = w \<and>
   (CALL_STATE w (form ''CallSid'') = None \<longrightarrow>
      snd (twilio_voice e w form) =
        Inr (xml_response
          [Gather ''dtmf speech'' 1 6
             (BASE_URL e @ ''/twilio/gather?call_sid='' @ format_opt (form ''CallSid''))
             ''POST'' [Say (JStr default_message)],
           Say (JStr ''We did not receive input. We will try again.'')]))"
  by (simp add: twilio_voice_def Let_def empty_meta_def)

theorem twilio_voice_frame_witness:
  "fst (twilio_voice env_calls one_call_world voice_form_unknown) = one_call_world \<and>
   CALL_STATE one_call_world (voice_form_unknown ''CallSid'') = None \<and>
   snd (twilio_voice env_calls one_call_world voice_form_unknown) =
     Inr (xml_response
       [Gather ''dtmf speech'' 1 6 ''https://example.test/twilio/gather?call_sid=CA404''
          ''POST'' [Say (JStr default_message)],
        Say (JStr ''We did not receive input. We will try again.'')])"
  using twilio_voice_frame [of env_calls one_call_world voice_form_unknown]
  by (simp add: one_call_world_def voice_form_unknown_def env_calls_def)

section \<open>Across the handlers\<close>

text \<open>
  C6, as the code has it. A record created by the trigger endpoint starts with zero
  attempts; the voice-prompt callback leaves every record as it is, so delivering the
  prompt does not count an attempt; and in every world the process can reach, the
  attempts of a record are zero, or absent for a record that a response-collection
  callback created for an id without one.
\<close>

theorem attempts_stay_zero:
  "(snd (trigger_event e w event) = Inr (Calling sid) \<longrightarrow>
      (\<exists>m. CALL_STATE (fst (trigger_event e w event)) (Some sid) = Some m \<and>
           meta_attempts m = Some 0)) \<and>
   CALL_STATE (fst (twilio_voice e w form)) k = CALL_STATE w k \<and>
   (reachable w \<longrightarrow> CALL_STATE w k = Some m' \<longrightarrow>
      meta_attempts m' = None \<or> meta_attempts m' = Some 0)"
proof (intro conjI impI)
  assume "snd (trigger_event e w event) = Inr (Calling sid)"
  from trigger_event_calling [OF this] obtain d where
    "fst (trigger_event e w event) =
           w\<lparr>CALL_STATE := ((CALL_STATE w)(Some (uuid4 e) := None))(Some sid \<mapsto>
                 \<lparr>meta_user_id = Some (user_id event), meta_phone = Some (phone event),
                  meta_message = Some (decision_message d), meta_decision = Some d,
                  meta_attempts = Some 0, meta_twilio_sid = Some sid,
                  meta_response = None\<rparr>),
              outbox := outbox w @
                [CallRequest (phone event) (TWILIO_FROM e) (BASE_URL e @ ''/twilio/voice'')]\<rparr>"
    by blast
  then show "\<exists>m. CALL_STATE (fst (trigger_event e w event)) (Some sid) = Some m \<and>
           meta_attempts m = Some 0" by simp
next
  show "CALL_STATE (fst (twilio_voice e w form)) k = CALL_STATE w k"
    by (simp add: twilio_voice_world)
next
  assume "reachable w" and "CALL_STATE w k = Some m'"
  then show "meta_attempts m' = None \<or> meta_attempts m' = Some 0"
    by (rule reachable_attempts)
qed

theorem attempts_stay_zero_witness:
  "snd (trigger_event env_calls empty_world panic_event) = Inr (Calling ''CA1'') \<and>
   reachable (fst (twilio_voice env_calls (fst (trigger_event env_calls empty_world panic_event)) voice_form)) \<and>
   CALL_STATE (fst (twilio_voice env_calls (fst (trigger_event env_calls empty_world panic_event)) voice_form))
     (Some ''CA1'') = Some fallback_session \<and>
   meta_attempts fallback_session = Some 0"
  using attempts_stay_zero
          [of env_calls
              "fst (twilio_voice env_calls (fst (trigger_event env_calls empty_world panic_event)) voice_form)"
              panic_event "''CA1''" voice_form "Some ''CA1''" fallback_session]
        attempts_stay_zero
          [of env_calls empty_world panic_event "''CA1''" voice_form "Some ''CA1''" fallback_session]
        prompted_world_reachable
  by (simp add: panic_call_run twilio_voice_world fallback_session_def)

text \<open>
  C6 as stated fails at the first voice prompt of a call: after the trigger endpoint has
  placed the call and the carrier has fetched the prompt, the attempts of the record are
  still zero, not one.
\<close>

theorem voice_prompt_no_increment_counterexample:
  "snd (trigger_event env_calls empty_world panic_event) = Inr (Calling ''CA1'') \<and>
   voice_form ''CallSid'' = Some ''CA1'' \<and>
   CALL_STATE (fst (twilio_voice env_calls (fst (trigger_event env_calls empty_world panic_event)) voice_form))
     (Some ''CA1'') = Some fallback_session \<and>
   meta_attempts fallback_session = Some 0 \<and>
   meta_attempts fallback_session \<noteq> Some 1"
  by (simp add: panic_call_run twilio_voice_world fallback_session_def voice_form_def)

text \<open>
  C8, as the code has it. For a call id without a record, the voice-prompt callback
  changes nothing and returns the prompt with the default message; the
  response-collection callback returns one of its two replies and creates a record
  under that id that holds the captured response and nothing else. For a call id with a
  record, whatever was answered before, the response-collection callback replaces the
  stored response. For a call id without a record neither callback has a failing path.
\<close>

theorem callbacks_on_unknown_id:
  "(CALL_STATE w (vform ''CallSid'') = None \<longrightarrow>
      fst (twilio_voice e w vform) = w \<and>
      snd (twilio_voice e w vform) =
        Inr (xml_response
          [Gather ''dtmf speech'' 1 6
             (BASE_URL e @ ''/twilio/gather?call_sid='' @ format_opt (vform ''CallSid''))
             ''POST'' [Say (JStr default_message)],
           Say (JStr ''We did not receive input. We will try again.'')])) \<and>
   (CALL_STATE w (q ''call_sid'') = None \<longrightarrow>
      fst (twilio_gather w gform q) =
        w\<lparr>CALL_STATE := (CALL_STATE w)(q ''call_sid'' \<mapsto>
             empty_meta\<lparr>meta_response := Some \<lparr>resp_digits = gform ''Digits'',
               resp_speech = gform ''SpeechResult'', resp_raw = gform\<rparr>\<rparr>)\<rparr> \<and>
      snd (twilio_gather w gform q) =
        xml_response [Say (JStr (if said_safe (gform ''Digits'') (gform ''SpeechResult'')
                                 then safe_message else alert_message))]) \<and>
   (CALL_STATE w (q ''call_sid'') = Some m \<longrightarrow>
      fst (twilio_gather w gform q) =
        w\<lparr>CALL_STATE := (CALL_STATE w)(q ''call_sid'' \<mapsto>
             m\<lparr>meta_response := Some \<lparr>resp_digits = gform ''Digits'',
               resp_speech = gform ''SpeechResult'', resp_raw = gform\<rparr>\<rparr>)\<rparr>)"
  by (simp add: twilio_voice_def twilio_gather_def Let_def empty_meta_def)

theorem callbacks_on_unknown_id_witness:
  "CALL_STATE one_call_world (voice_form_unknown ''CallSid'') = None \<and>
   fst (twilio_voice env_calls one_call_world voice_form_unknown) = one_call_world \<and>
   CALL_STATE one_call_world (query_unknown ''call_sid'') = None \<and>
   CALL_STATE (fst (twilio_gather one_call_world press2_form query_unknown)) (Some ''CA404'') =
     Some (empty_meta\<lparr>meta_response := Some \<lparr>resp_digits = Some ''2'',
             resp_speech = None, resp_raw = press2_form\<rparr>\<rparr>) \<and>
   snd (twilio_gather one_call_world press2_form query_unknown) =
     xml_response [Say (JStr alert_message)] \<and>
   CALL_STATE one_call_world (query_CA1 ''call_sid'') = Some fallback_session \<and>
   CALL_STATE (fst (twilio_gather one_call_world press2_form query_CA1)) (Some ''CA1'') =
     Some (fallback_session\<lparr>meta_response := Some \<lparr>resp_digits = Some ''2'',
             resp_speech = None, resp_raw = press2_form\<rparr>\<rparr>)"
  using callbacks_on_unknown_id
          [of one_call_world voice_form_unknown env_calls query_unknown press2_form fallback_session]
        callbacks_on_unknown_id
          [of one_call_world voice_form_unknown env_calls query_CA1 press2_form fallback_session]
  by (simp add: one_call_world_def voice_form_unknown_def query_unknown_def query_CA1_def
        press2_form_def said_safe_def)

text \<open>
  C8 as stated fails for the response-collection callback: on an empty store, a request
  for an id without a record leaves a store that is no longer empty.
\<close>

theorem gather_unknown_id_counterexample:
  "CALL_STATE empty_world (query_unknown ''call_sid'') = None \<and>
   fst (twilio_gather empty_world no_input_form query_unknown) \<noteq> empty_world"
proof -
  have "CALL_STATE (fst (twilio_gather empty_world no_input_form query_unknown)) (Some ''CA404'') \<noteq> None"
    by (simp add: twilio_gather_store query_unknown_def)
  moreover have "CALL_STATE empty_world (Some ''CA404'') = None"
    by (simp add: empty_world_def)
  ultimately have "fst (twilio_gather empty_world no_input_form query_unknown) \<noteq> empty_world"
    by metis
  then show ?thesis by (simp add: empty_world_def)
qed

end
